theory Spec2Isabelle
  imports Complex_Main "HOL-Library.Word"
begin

section \<open>Data model of main.go\<close>

text \<open>
  Go's \<open>uint64\<close> is a 64-bit word read unsigned; \<open>int\<close> (on a 64-bit platform) and
  \<open>time.Duration\<close> (an \<open>int64\<close> count of nanoseconds) are 64-bit words read in two's
  complement through \<open>sint\<close>. Arithmetic on them wraps around, as Go's does.
\<close>

type_synonym uint64 = "64 word"
type_synonym goint = "64 word"
type_synonym Duration = "64 word"

text \<open>The constants of the \<open>const\<close> block; a second is \<open>10^9\<close> nanoseconds.\<close>

definition Second :: Duration where
  "Second = 1000000000"

definition numPollers :: nat where
  "numPollers = 1"

definition pollInterval :: Duration where
  "pollInterval = 60 * Second"

definition errTimeout :: Duration where
  "errTimeout = 10 * Second"

text \<open>
  The command-line flags. The record holds the values the four flag pointers refer to.
  The default of \<open>threshold\<close> is the constant expression \<open>uint64(1.074*10E11)\<close>: Go
  evaluates untyped constant expressions exactly, \<open>1.074\<close> is \<open>1074/1000\<close> and the
  literal \<open>10E11\<close> is \<open>10 * 10^11\<close>.
\<close>

record flags =
  threshold :: uint64
  addr :: string
  path :: string
  override :: bool

definition threshold_default :: uint64 where
  "threshold_default = of_int \<lfloor>(1074 / 1000 :: rat) * (10 * 10 ^ 11)\<rfloor>"

definition default_flags :: flags where
  "default_flags =
     \<lparr>threshold = threshold_default, addr = '':8080'', path = ''/mnt/storage'',
      override = False\<rparr>"

text \<open>\<open>State\<close>: the last known state of a path, sent from the poller to the monitor.\<close>

record State =
  path :: string
  bytes :: uint64

text \<open>
  \<open>diskStatus\<close>: the map from paths to bytes. The embedded \<open>sync.RWMutex\<close> makes every
  critical section of the source atomic with respect to the map; the model runs each
  critical section as one step and keeps no lock state.
\<close>

record diskStatus =
  state :: "string \<rightharpoonup> uint64"

text \<open>\<open>Path\<close>: a directory to be polled and its error count.\<close>

record Path =
  path :: string
  errCount :: goint

section \<open>The HTTP handler of StateMonitor\<close>

text \<open>
  What a handler invocation leaves in the \<open>http.ResponseWriter\<close>: the status code and
  the bytes of the body.
\<close>

record response =
  status :: nat
  body :: string

definition StatusOK :: nat where
  "StatusOK = 200"

definition StatusInternalServerError :: nat where
  "StatusInternalServerError = 500"

definition StatusServiceUnavailable :: nat where
  "StatusServiceUnavailable = 503"

text \<open>
  \<open>http.Error(w, msg, code)\<close> writes the header with \<open>code\<close> and prints \<open>msg\<close> with
  \<open>fmt.Fprintln\<close>, so the body is the message followed by a line feed.
\<close>

definition http_Error :: "string \<Rightarrow> nat \<Rightarrow> response" where
  "http_Error msg code = \<lparr>status = code, body = msg @ [CHR 0x0A]\<rparr>"

text \<open>
  A first write to the \<open>ResponseWriter\<close> with no \<open>WriteHeader\<close> before it sends
  status 200.
\<close>

definition write_body :: "string \<Rightarrow> response" where
  "write_body s = \<lparr>status = StatusOK, body = s\<rparr>"

text \<open>The verb \<open>%v\<close> of package fmt: an unsigned integer in decimal, a boolean as a word.\<close>

fun FormatUint :: "nat \<Rightarrow> string" where
  "FormatUint n =
     (if n < 10 then [''0123456789'' ! n]
      else FormatUint (n div 10) @ [''0123456789'' ! (n mod 10)])"

declare FormatUint.simps [simp del]

definition fmt_uint64 :: "uint64 \<Rightarrow> string" where
  "fmt_uint64 w = FormatUint (unat w)"

definition fmt_bool :: "bool \<Rightarrow> string" where
  "fmt_bool b = (if b then ''true'' else ''false'')"

text \<open>Reading a Go map at a key it does not hold gives the zero value.\<close>

definition map_index :: "(string \<rightharpoonup> uint64) \<Rightarrow> string \<Rightarrow> uint64" where
  "map_index m k = (case m k of None \<Rightarrow> 0 | Some v \<Rightarrow> v)"

text \<open>
  The function registered with \<open>http.HandleFunc("/", ...)\<close>. It runs against the
  flags and the table; the model returns the response together with the flags and the
  table as the invocation leaves them.
\<close>

definition respond :: "flags \<Rightarrow> diskStatus \<Rightarrow> response" where
  "respond fl ds =
     (let bytes = map_index (state ds) (flags.path fl) in
      if bytes = 0 then
        http_Error ''Disk status not cached yet'' StatusServiceUnavailable
      else if bytes > threshold fl \<and> override fl = False then
        http_Error
          (''ERROR: Bytes exceed threshold ('' @ fmt_uint64 bytes @ ''/''
             @ fmt_uint64 (threshold fl) @ '')'')
          StatusInternalServerError
      else
        write_body
          (''OK: '' @ flags.path fl @ '' is '' @ fmt_uint64 bytes
             @ '' bytes; override set to '' @ fmt_bool (override fl) @ [CHR 0x0A]))"

definition handler :: "flags \<times> diskStatus \<Rightarrow> response \<times> (flags \<times> diskStatus)" where
  "handler w = (respond (fst w) (snd w), w)"

section \<open>The update loop of StateMonitor\<close>

text \<open>
  The first goroutine of \<open>StateMonitor\<close> selects between a tick, on which it logs the
  table, and a \<open>State\<close> received on \<open>updates\<close>, which it stores. \<open>logState\<close> only
  reads the table.
\<close>

datatype trigger = Tick | Update State

fun StateMonitor_step :: "diskStatus \<Rightarrow> trigger \<Rightarrow> diskStatus" where
  "StateMonitor_step ds Tick = ds"
| "StateMonitor_step ds (Update s) =
     ds\<lparr>state := (state ds)(State.path s \<mapsto> bytes s)\<rparr>"

definition StateMonitor_loop :: "diskStatus \<Rightarrow> trigger list \<Rightarrow> diskStatus" where
  "StateMonitor_loop ds ts = foldl StateMonitor_step ds ts"

section \<open>Poll, Sleep and Poller\<close>

text \<open>
  A call either returns a value or ends the whole process: \<open>log.Fatal\<close> logs its
  argument and calls \<open>os.Exit(1)\<close>, and an index out of range panics. \<open>then_do\<close> is
  the sequencing of statements: nothing after an exit or a panic runs.
\<close>

datatype 'a run = Returned 'a | Exited nat string | Panicked

fun then_do :: "'a run \<Rightarrow> ('a \<Rightarrow> 'b run) \<Rightarrow> 'b run" where
  "then_do (Returned x) f = f x"
| "then_do (Exited c msg) f = Exited c msg"
| "then_do Panicked f = Panicked"

definition log_Fatal :: "string \<Rightarrow> unit run" where
  "log_Fatal err = Exited 1 err"

text \<open>
  The calls \<open>Poll\<close> makes outside this repository are parameters of the model: the
  \<open>du -sbx\<close> command run on a path, giving its standard output and an error or
  \<open>nil\<close>; \<open>strings.TrimSpace\<close>; and \<open>strconv.ParseUint\<close> at base 0 and 64 bits,
  giving a value and an error or \<open>nil\<close>. An error is modelled by its text.
\<close>

record extern =
  du_sbx :: "string \<Rightarrow> string \<times> string option"
  TrimSpace :: "string \<Rightarrow> string"
  ParseUint :: "string \<Rightarrow> uint64 \<times> string option"

text \<open>
  \<open>strings.Split(s, sep)\<close> for a separator of one byte: the pieces of \<open>s\<close> between
  the occurrences of the separator, at least one piece.
\<close>

fun Split :: "string \<Rightarrow> char \<Rightarrow> string list" where
  "Split [] sep = [[]]"
| "Split (c # cs) sep =
     (if c = sep then [] # Split cs sep
      else (case Split cs sep of
              [] \<Rightarrow> [[c]]
            | piece # pieces \<Rightarrow> (c # piece) # pieces))"

definition index0 :: "'a list \<Rightarrow> 'a run" where
  "index0 xs = (case xs of [] \<Rightarrow> Panicked | x # _ \<Rightarrow> Returned x)"

text \<open>
  \<open>Poll\<close>, statement by statement. Each \<open>if err != nil\<close> block is
  \<open>log.Fatal(err)\<close> followed by \<open>r.errCount++\<close>. The result is the returned byte
  count with the task as the call leaves it.
\<close>

definition on_error :: "string option \<Rightarrow> Path \<Rightarrow> Path run" where
  "on_error err r =
     (case err of
        None \<Rightarrow> Returned r
      | Some e \<Rightarrow> then_do (log_Fatal e) (\<lambda>_. Returned (r\<lparr>errCount := errCount r + 1\<rparr>)))"

definition Poll :: "extern \<Rightarrow> Path \<Rightarrow> (uint64 \<times> Path) run" where
  "Poll ext r =
     (case du_sbx ext (Path.path r) of (out, err) \<Rightarrow>
      then_do (on_error err r) (\<lambda>r.
      let s = out; s = TrimSpace ext s in
      then_do (index0 (Split s (CHR 0x09))) (\<lambda>bytesStr.
      case ParseUint ext bytesStr of (n, err) \<Rightarrow>
      then_do (on_error err r) (\<lambda>r.
      Returned (n, r\<lparr>errCount := 0\<rparr>)))))"

text \<open>
  \<open>Sleep\<close> sleeps for \<open>pollInterval + errTimeout * time.Duration(r.errCount)\<close> and
  then sends the task to \<open>done\<close>. \<open>Sleep_delay\<close> is the duration handed to
  \<open>time.Sleep\<close>, computed in \<open>int64\<close>.
\<close>

definition Sleep_delay :: "Path \<Rightarrow> Duration" where
  "Sleep_delay r = pollInterval + errTimeout * errCount r"

definition Sleep :: "Path \<Rightarrow> Duration \<times> Path" where
  "Sleep r = (Sleep_delay r, r)"

text \<open>
  One iteration of the loop of \<open>Poller\<close>: poll the task, send the \<open>State\<close> on
  \<open>status\<close> and the task on \<open>out\<close>.
\<close>

definition Poller_step :: "extern \<Rightarrow> Path \<Rightarrow> (State \<times> Path) run" where
  "Poller_step ext r =
     then_do (Poll ext r) (\<lambda>(n, r').
       Returned (\<lparr>State.path = Path.path r', bytes = n\<rparr>, r'))"

text \<open>
  Three instances of the external calls, used to run \<open>Poll\<close> on concrete inputs. In
  \<open>du_fails\<close> the command ends with a non-zero status. In \<open>du_reports\<close> it prints
  \<open>4096\<close>, a tab, the path and a line feed; trimming removes the line feed and the
  first field parses to 4096. In \<open>du_malformed\<close> the command succeeds and prints
  something that is not a number.
\<close>

definition du_fails :: extern where
  "du_fails =
     \<lparr>du_sbx = (\<lambda>p. ([], Some ''exit status 1'')),
      TrimSpace = (\<lambda>s. s),
      ParseUint = (\<lambda>s. (0, Some ''invalid syntax''))\<rparr>"

definition du_reports :: extern where
  "du_reports =
     \<lparr>du_sbx = (\<lambda>p. (''4096'' @ [CHR 0x09] @ p @ [CHR 0x0A], None)),
      TrimSpace = (\<lambda>s. if s \<noteq> [] \<and> last s = CHR 0x0A then butlast s else s),
      ParseUint = (\<lambda>s. if s = ''4096'' then (4096, None) else (0, Some ''invalid syntax''))\<rparr>"

definition du_malformed :: extern where
  "du_malformed =
     \<lparr>du_sbx = (\<lambda>p. (''?'', None)),
      TrimSpace = (\<lambda>s. s),
      ParseUint = (\<lambda>s. (0, Some ''invalid syntax''))\<rparr>"

section \<open>Reference notions for the table\<close>

text \<open>
  The measurement events among the triggers the monitor has processed, in the order of
  receipt, and the byte count of the last event for a path in a sequence of events.
\<close>

definition updates_of :: "trigger list \<Rightarrow> State list" where
  "updates_of ts = concat (map (\<lambda>t. case t of Tick \<Rightarrow> [] | Update s \<Rightarrow> [s]) ts)"

definition last_reported :: "State list \<Rightarrow> string \<Rightarrow> uint64" where
  "last_reported evs p = bytes (last (filter (\<lambda>s. State.path s = p) evs))"

section \<open>The threshold flag\<close>

text \<open>
  C2. The claim gives the default threshold as about \<open>1.074 * 10^11\<close> bytes. In the
  source the literal is \<open>10E11\<close>, which is \<open>10^12\<close>, so the default is
  \<open>1.074 * 10^12\<close>: exactly 1074000000000 bytes.
\<close>

theorem threshold_default_value:
  "threshold_default = 1074000000000 \<and> unat threshold_default = 1074 * 10 ^ 9"
  by (simp add: threshold_default_def)

text \<open>
  C2, as stated, fails: the default is ten times \<open>1.074 * 10^11\<close>, and it is not even
  within a factor of two of that value.
\<close>

theorem threshold_default_not_1074e8:
  "unat threshold_default = 10 * 107400000000
   \<and> \<not> unat threshold_default \<le> 2 * 107400000000"
  by (simp add: threshold_default_def)

section \<open>The responses of the handler\<close>

lemma map_index_zero_iff:
  "map_index m k = 0 \<longleftrightarrow> m k = None \<or> m k = Some 0"
  by (simp add: map_index_def split: option.splits)

text \<open>
  C4. When the table has no entry for the configured path, or the entry is zero, the
  response is 503 Service Unavailable with the message "Disk status not cached yet" (as
  \<open>http.Error\<close> prints it, ended by a line feed), whatever the override flag is: the
  flags are arbitrary here.
\<close>

theorem handler_not_cached:
  assumes "state ds (flags.path fl) = None \<or> state ds (flags.path fl) = Some 0"
  shows "fst (handler (fl, ds))
           = http_Error ''Disk status not cached yet'' StatusServiceUnavailable
         \<and> status (fst (handler (fl, ds))) = 503
         \<and> body (fst (handler (fl, ds))) = ''Disk status not cached yet'' @ [CHR 0x0A]"
proof -
  from assms have "map_index (state ds) (flags.path fl) = 0"
    by (simp add: map_index_zero_iff)
  then show ?thesis
    by (simp add: handler_def respond_def http_Error_def StatusServiceUnavailable_def)
qed

theorem handler_not_cached_witness:
  "status (fst (handler (default_flags\<lparr>override := True\<rparr>, \<lparr>state = Map.empty\<rparr>))) = 503
   \<and> body (fst (handler (default_flags\<lparr>override := True\<rparr>, \<lparr>state = Map.empty\<rparr>)))
       = ''Disk status not cached yet'' @ [CHR 0x0A]
   \<and> status (fst (handler (default_flags, \<lparr>state = [''/mnt/storage'' \<mapsto> 0]\<rparr>))) = 503"
  using handler_not_cached [of "\<lparr>state = Map.empty\<rparr>" "default_flags\<lparr>override := True\<rparr>"]
    handler_not_cached [of "\<lparr>state = [''/mnt/storage'' \<mapsto> 0]\<rparr>" default_flags]
  by (simp add: default_flags_def http_Error_def StatusServiceUnavailable_def)

lemma over_threshold_nonzero: "(t::uint64) < b \<Longrightarrow> b \<noteq> 0"
  by (auto simp: word_less_nat_alt)

lemma map_index_Some: "m k = Some b \<Longrightarrow> map_index m k = b"
  by (simp add: map_index_def)

text \<open>
  C3. When the cached byte count for the configured path is strictly greater than the
  threshold and the override flag is unset, the response is 500 Internal Server Error
  and its body holds both the byte count and the threshold, in decimal.
\<close>

theorem handler_over_threshold:
  assumes "state ds (flags.path fl) = Some b" and "b > threshold fl"
    and "override fl = False"
  shows "status (fst (handler (fl, ds))) = 500
         \<and> body (fst (handler (fl, ds)))
             = ''ERROR: Bytes exceed threshold ('' @ fmt_uint64 b @ ''/''
                 @ fmt_uint64 (threshold fl) @ '')'' @ [CHR 0x0A]"
proof -
  from assms(1) have idx: "map_index (state ds) (flags.path fl) = b"
    by (rule map_index_Some)
  from assms(2) have nz: "b \<noteq> 0"
    by (rule over_threshold_nonzero)
  from idx nz assms(2,3) show ?thesis
    by (simp add: handler_def respond_def http_Error_def StatusInternalServerError_def)
qed

text \<open>The case of the specification: \<open>bytes = threshold + 1\<close>, override unset.\<close>

theorem handler_over_threshold_witness:
  "status (fst (handler (default_flags,
       \<lparr>state = [''/mnt/storage'' \<mapsto> threshold_default + 1]\<rparr>))) = 500
   \<and> body (fst (handler (default_flags,
       \<lparr>state = [''/mnt/storage'' \<mapsto> threshold_default + 1]\<rparr>)))
       = ''ERROR: Bytes exceed threshold (1074000000001/1074000000000)'' @ [CHR 0x0A]"
  using handler_over_threshold
    [of "\<lparr>state = [''/mnt/storage'' \<mapsto> threshold_default + 1]\<rparr>"
      default_flags "threshold_default + 1"]
  by (simp add: default_flags_def threshold_default_def fmt_uint64_def FormatUint.simps)

text \<open>
  C5. When the cached byte count for the configured path is not zero and it is not the
  case that it exceeds the threshold with the override unset, the response is 200 OK and
  its body reports the path, the byte count and the override flag.
\<close>

theorem handler_ok:
  assumes "state ds (flags.path fl) = Some b" and "b \<noteq> 0"
    and "\<not> (b > threshold fl \<and> \<not> override fl)"
  shows "status (fst (handler (fl, ds))) = 200
         \<and> body (fst (handler (fl, ds)))
             = ''OK: '' @ flags.path fl @ '' is '' @ fmt_uint64 b
                 @ '' bytes; override set to '' @ fmt_bool (override fl) @ [CHR 0x0A]"
proof -
  from assms(1) have idx: "map_index (state ds) (flags.path fl) = b"
    by (rule map_index_Some)
  from idx assms(2,3) show ?thesis
    by (auto simp add: handler_def respond_def write_body_def StatusOK_def)
qed

text \<open>
  The two cases of the specification: \<open>bytes = threshold + 1\<close> with the override
  set, and \<open>bytes = threshold - 1\<close> with the override unset.
\<close>

theorem handler_ok_witness:
  "body (fst (handler (default_flags\<lparr>override := True\<rparr>,
            \<lparr>state = [''/mnt/storage'' \<mapsto> threshold_default + 1]\<rparr>)))
     = ''OK: /mnt/storage is 1074000000001 bytes; override set to true'' @ [CHR 0x0A]
   \<and> status (fst (handler (default_flags\<lparr>override := True\<rparr>,
            \<lparr>state = [''/mnt/storage'' \<mapsto> threshold_default + 1]\<rparr>))) = 200
   \<and> body (fst (handler (default_flags,
            \<lparr>state = [''/mnt/storage'' \<mapsto> threshold_default - 1]\<rparr>)))
     = ''OK: /mnt/storage is 1073999999999 bytes; override set to false'' @ [CHR 0x0A]
   \<and> status (fst (handler (default_flags,
            \<lparr>state = [''/mnt/storage'' \<mapsto> threshold_default - 1]\<rparr>))) = 200"
  using handler_ok [of "\<lparr>state = [''/mnt/storage'' \<mapsto> threshold_default + 1]\<rparr>"
      "default_flags\<lparr>override := True\<rparr>" "threshold_default + 1"]
    handler_ok [of "\<lparr>state = [''/mnt/storage'' \<mapsto> threshold_default - 1]\<rparr>"
      default_flags "threshold_default - 1"]
  by (simp add: default_flags_def threshold_default_def fmt_uint64_def fmt_bool_def
      FormatUint.simps)

text \<open>
  C8. A second request, handled against the flags and the table as the first request
  left them, gets the same response as the first: the same status and the same body.
\<close>

theorem handler_idempotent:
  "fst (handler (snd (handler w))) = fst (handler w)"
  by (simp add: handler_def)

text \<open>
  C9. Handling a request leaves the flags and the table as they were: the handler
  only reads them.
\<close>

theorem handler_pure_read:
  "snd (handler (fl, ds)) = (fl, ds)"
  by (simp add: handler_def)

section \<open>The table after a sequence of events\<close>

lemma StateMonitor_loop_snoc:
  "StateMonitor_loop ds (ts @ [t]) = StateMonitor_step (StateMonitor_loop ds ts) t"
  by (simp add: StateMonitor_loop_def)

lemma updates_of_snoc_Tick: "updates_of (ts @ [Tick]) = updates_of ts"
  by (simp add: updates_of_def)

lemma updates_of_snoc_Update: "updates_of (ts @ [Update s]) = updates_of ts @ [s]"
  by (simp add: updates_of_def)

text \<open>
  The whole table after the loop has processed \<open>ts\<close>: a path with an event holds the
  bytes of its last event, any other path holds what it held before.
\<close>

lemma StateMonitor_loop_table:
  "state (StateMonitor_loop ds ts) p =
     (if p \<in> State.path ` set (updates_of ts)
      then Some (last_reported (updates_of ts) p) else state ds p)"
proof (induction ts rule: rev_induct)
  case Nil
  show ?case by (simp add: StateMonitor_loop_def updates_of_def)
next
  case (snoc t ts)
  show ?case
  proof (cases t)
    case Tick
    with snoc show ?thesis
      by (simp add: StateMonitor_loop_snoc updates_of_snoc_Tick)
  next
    case (Update s)
    show ?thesis
    proof (cases "State.path s = p")
      case True
      with Update show ?thesis
        by (simp add: StateMonitor_loop_snoc updates_of_snoc_Update last_reported_def)
    next
      case False
      then have "last_reported (updates_of ts @ [s]) p = last_reported (updates_of ts) p"
        by (simp add: last_reported_def)
      with False Update snoc show ?thesis
        by (auto simp add: StateMonitor_loop_snoc updates_of_snoc_Update)
    qed
  qed
qed

text \<open>
  C7. After the monitor has processed a finite sequence of triggers, every path that
  occurs in a measurement event of the sequence is mapped to the bytes of the last event
  received for that path, whatever the table held before and however ticks are
  interleaved.
\<close>

theorem StateMonitor_last_write_wins:
  assumes "p \<in> State.path ` set (updates_of ts)"
  shows "state (StateMonitor_loop ds ts) p = Some (last_reported (updates_of ts) p)"
  using assms by (simp add: StateMonitor_loop_table)

theorem StateMonitor_last_write_wins_witness:
  "state (StateMonitor_loop \<lparr>state = Map.empty\<rparr>
       [Update \<lparr>State.path = ''/a'', bytes = 1\<rparr>, Tick,
        Update \<lparr>State.path = ''/b'', bytes = 2\<rparr>,
        Update \<lparr>State.path = ''/a'', bytes = 3\<rparr>]) ''/a'' = Some 3"
  using StateMonitor_last_write_wins [of "''/a''"
      "[Update \<lparr>State.path = ''/a'', bytes = 1\<rparr>, Tick,
        Update \<lparr>State.path = ''/b'', bytes = 2\<rparr>,
        Update \<lparr>State.path = ''/a'', bytes = 3\<rparr>]" "\<lparr>state = Map.empty\<rparr>"]
  by (simp add: updates_of_def last_reported_def)

section \<open>The delay of Sleep\<close>

lemma sint_pollInterval: "sint pollInterval = 60000000000"
  by (simp add: pollInterval_def Second_def)

lemma sint_errTimeout: "sint errTimeout = 10000000000"
  by (simp add: errTimeout_def Second_def)

text \<open>
  As long as the sum fits in an \<open>int64\<close>, the word arithmetic of \<open>Sleep\<close> is the
  arithmetic of the integers. The largest error count for which it fits is 922337197:
  \<open>60 * 10^9 + 10^10 * 922337197 \<le> 2^63 - 1 < 60 * 10^9 + 10^10 * 922337198\<close>.
\<close>

lemma Sleep_delay_sint:
  assumes "0 \<le> sint (errCount r)" and "sint (errCount r) \<le> 922337197"
  shows "sint (Sleep_delay r) = 60000000000 + 10000000000 * sint (errCount r)"
proof -
  let ?k = "sint (errCount r)"
  have "Sleep_delay r = word_of_int (60000000000 + 10000000000 * ?k)"
    by (simp add: Sleep_delay_def pollInterval_def errTimeout_def Second_def)
  then have "sint (Sleep_delay r) = signed_take_bit 63 (60000000000 + 10000000000 * ?k)"
    by (simp only: sint_sbintrunc') simp
  also have "\<dots> = 60000000000 + 10000000000 * ?k"
    using assms by (intro signed_take_bit_int_eq_self) simp_all
  finally show ?thesis .
qed

text \<open>
  C6, amended. For every task whose error count \<open>k\<close> is between 0 and 922337197, the
  delay is \<open>pollInterval + errTimeout * k\<close>; on that range the delay does not decrease
  when \<open>k\<close> grows, and it is strictly greater than \<open>pollInterval\<close> when \<open>k \<ge> 1\<close>.
\<close>

theorem Sleep_delay_linear_in_range:
  assumes "0 \<le> sint (errCount r)" and "sint (errCount r) \<le> 922337197"
  shows "sint (Sleep_delay r) = sint pollInterval + sint errTimeout * sint (errCount r)
         \<and> (\<forall>r'. sint (errCount r) \<le> sint (errCount r') \<and> sint (errCount r') \<le> 922337197
                \<longrightarrow> sint (Sleep_delay r) \<le> sint (Sleep_delay r'))
         \<and> (1 \<le> sint (errCount r) \<longrightarrow> sint pollInterval < sint (Sleep_delay r))"
proof (intro conjI allI impI)
  show "sint (Sleep_delay r) = sint pollInterval + sint errTimeout * sint (errCount r)"
    using assms by (simp add: Sleep_delay_sint sint_pollInterval sint_errTimeout)
next
  fix r' :: Path
  assume le: "sint (errCount r) \<le> sint (errCount r') \<and> sint (errCount r') \<le> 922337197"
  with assms(1) have "0 \<le> sint (errCount r')" by linarith
  with le have "sint (Sleep_delay r') = 60000000000 + 10000000000 * sint (errCount r')"
    by (simp add: Sleep_delay_sint)
  with le assms show "sint (Sleep_delay r) \<le> sint (Sleep_delay r')"
    by (simp add: Sleep_delay_sint)
next
  assume "1 \<le> sint (errCount r)"
  with assms show "sint pollInterval < sint (Sleep_delay r)"
    by (simp add: Sleep_delay_sint sint_pollInterval)
qed

theorem Sleep_delay_linear_in_range_witness:
  "sint (Sleep_delay \<lparr>Path.path = ''/mnt/storage'', errCount = 3\<rparr>) = 90000000000
   \<and> sint (Sleep_delay \<lparr>Path.path = ''/mnt/storage'', errCount = 3\<rparr>)
       \<le> sint (Sleep_delay \<lparr>Path.path = ''/mnt/storage'', errCount = 5\<rparr>)
   \<and> sint pollInterval < sint (Sleep_delay \<lparr>Path.path = ''/mnt/storage'', errCount = 3\<rparr>)"
proof -
  let ?r = "\<lparr>Path.path = ''/mnt/storage'', errCount = 3\<rparr>"
  let ?r' = "\<lparr>Path.path = ''/mnt/storage'', errCount = 5\<rparr>"
  have h1: "0 \<le> sint (errCount ?r)" and h2: "sint (errCount ?r) \<le> 922337197"
    by simp_all
  note inst = Sleep_delay_linear_in_range [OF h1 h2]
  from inst have a:
    "sint (Sleep_delay ?r) = sint pollInterval + sint errTimeout * sint (errCount ?r)"
    by (rule conjunct1)
  from inst have
    "sint (errCount ?r) \<le> sint (errCount ?r') \<and> sint (errCount ?r') \<le> 922337197
      \<longrightarrow> sint (Sleep_delay ?r) \<le> sint (Sleep_delay ?r')"
    by blast
  then have b: "sint (Sleep_delay ?r) \<le> sint (Sleep_delay ?r')" by simp
  from inst have "1 \<le> sint (errCount ?r) \<longrightarrow> sint pollInterval < sint (Sleep_delay ?r)"
    by blast
  then have c: "sint pollInterval < sint (Sleep_delay ?r)" by simp
  from a b c show ?thesis by (simp add: sint_pollInterval sint_errTimeout)
qed

text \<open>
  C6, as stated for every \<open>k \<ge> 0\<close>, fails: at \<open>k = 922337198\<close> the sum no longer fits
  in an \<open>int64\<close> and wraps around. The delay is then not
  \<open>pollInterval + errTimeout * k\<close>; it is below \<open>pollInterval\<close> and below the delay at
  \<open>k = 922337197\<close>.
\<close>

theorem Sleep_delay_overflows:
  "0 \<le> sint (errCount \<lparr>Path.path = ''/mnt/storage'', errCount = 922337198\<rparr>)
   \<and> sint (Sleep_delay \<lparr>Path.path = ''/mnt/storage'', errCount = 922337198\<rparr>)
       \<noteq> sint pollInterval
          + sint errTimeout
            * sint (errCount \<lparr>Path.path = ''/mnt/storage'', errCount = 922337198\<rparr>)
   \<and> sint (Sleep_delay \<lparr>Path.path = ''/mnt/storage'', errCount = 922337198\<rparr>)
       < sint pollInterval
   \<and> sint (Sleep_delay \<lparr>Path.path = ''/mnt/storage'', errCount = 922337198\<rparr>)
       < sint (Sleep_delay \<lparr>Path.path = ''/mnt/storage'', errCount = 922337197\<rparr>)"
  by (simp add: Sleep_delay_def pollInterval_def errTimeout_def Second_def)

section \<open>What Poll does on success and on failure\<close>

text \<open>An error block never returns: the increment after \<open>log.Fatal\<close> is never run.\<close>

lemma on_error_Some: "on_error (Some e) r = Exited 1 e"
  by (simp add: on_error_def log_Fatal_def)

lemma on_error_Returned: "on_error err r = Returned r' \<Longrightarrow> err = None \<and> r' = r"
  by (cases err) (simp_all add: on_error_def log_Fatal_def)

lemma then_do_Returned:
  "then_do m f = Returned y \<Longrightarrow> \<exists>x. m = Returned x \<and> f x = Returned y"
  by (cases m) simp_all

text \<open>
  C10. Whenever \<open>Poll\<close> returns, the error count of the task is 0, so the delay that
  \<open>Sleep\<close> computes for the task after a completed poll is exactly \<open>pollInterval\<close>.
\<close>

theorem Poll_returns_errCount_zero:
  assumes "Poll ext r = Returned (n, r')"
  shows "errCount r' = 0 \<and> Sleep_delay r' = pollInterval \<and> fst (Sleep r') = pollInterval"
proof -
  obtain out err where du: "du_sbx ext (Path.path r) = (out, err)"
    by (cases "du_sbx ext (Path.path r)")
  from assms du obtain r1 where
    "then_do (index0 (Split (TrimSpace ext out) (CHR 0x09))) (\<lambda>bytesStr.
       case ParseUint ext bytesStr of (n, err) \<Rightarrow>
       then_do (on_error err r1) (\<lambda>r. Returned (n, r\<lparr>errCount := 0\<rparr>))) = Returned (n, r')"
    by (auto simp add: Poll_def dest!: then_do_Returned)
  then obtain bytesStr where
    "(case ParseUint ext bytesStr of (n, err) \<Rightarrow>
       then_do (on_error err r1) (\<lambda>r. Returned (n, r\<lparr>errCount := 0\<rparr>))) = Returned (n, r')"
    by (auto dest!: then_do_Returned)
  then obtain r2 where "r' = r2\<lparr>errCount := 0\<rparr>"
    by (auto split: prod.splits dest!: then_do_Returned)
  then show ?thesis
    by (simp add: Sleep_def Sleep_delay_def)
qed

text \<open>
  A poll that returns: \<open>du\<close> reports 4096 bytes for a task that carried an error
  count of 7.
\<close>

theorem Poll_returns_errCount_zero_witness:
  "Poll du_reports \<lparr>Path.path = ''/mnt/storage'', errCount = 7\<rparr>
     = Returned (4096, \<lparr>Path.path = ''/mnt/storage'', errCount = 0\<rparr>)
   \<and> errCount \<lparr>Path.path = ''/mnt/storage'', errCount = 0\<rparr> = 0
   \<and> Sleep_delay \<lparr>Path.path = ''/mnt/storage'', errCount = 0\<rparr> = pollInterval"
proof -
  have run: "Poll du_reports \<lparr>Path.path = ''/mnt/storage'', errCount = 7\<rparr>
     = Returned (4096, \<lparr>Path.path = ''/mnt/storage'', errCount = 0\<rparr>)"
    by (simp add: Poll_def du_reports_def on_error_def index0_def)
  from Poll_returns_errCount_zero [OF run] run show ?thesis by simp
qed

text \<open>
  C1 asks that a failed poll does not end the process, increments the error count and
  reports a retryable error. The source does not do that: when \<open>du\<close> fails, and when
  its output does not parse, \<open>Poll\<close> ends the process with status 1 and neither
  \<open>Poll\<close> nor the iteration of \<open>Poller\<close> returns a task with an incremented count.
\<close>

theorem Poll_exits_on_failure:
  "Poll du_fails \<lparr>Path.path = ''/mnt/storage'', errCount = 0\<rparr> = Exited 1 ''exit status 1''
   \<and> Poller_step du_fails \<lparr>Path.path = ''/mnt/storage'', errCount = 0\<rparr>
       = Exited 1 ''exit status 1''
   \<and> Poll du_malformed \<lparr>Path.path = ''/mnt/storage'', errCount = 0\<rparr>
       = Exited 1 ''invalid syntax''"
  by (simp add: Poller_step_def Poll_def du_fails_def du_malformed_def on_error_def
      log_Fatal_def index0_def)

end
